theory Spec2Isabelle
  imports Main
begin

section \<open>Data model of the tile geometry loader\<close>

text \<open>
  The development embeds the class \<open>TileGeometryLoader\<close> of harp.gl
  (\<open>src/unnamed/part_001\<close>). The loader works on JavaScript objects that are shared by
  reference: sets of geometry kinds, techniques and decoded tiles. Objects therefore live
  in explicit stores and are named by addresses; \<open>===\<close> on two objects is equality of
  their addresses.
\<close>

text \<open>
  Modelled from the spec: the enumeration \<open>GeometryKind\<close> of
  \<open>@here/harp-datasource-protocol\<close> is not in src/. The loader names the five members
  \<open>All\<close>, \<open>Area\<close>, \<open>Line\<close>, \<open>Building\<close> and \<open>Label\<close>; every other member is
  \<open>OtherKind n\<close>. (\<open>All\<close> is written \<open>AllKind\<close>: \<open>All\<close> is the quantifier of HOL.)
\<close>

datatype GeometryKind = AllKind | Area | Line | Building | Label | OtherKind nat

type_synonym ref = nat

text \<open>
  A JavaScript value as far as the loader passes one around: a geometry kind, or a
  reference to a \<open>GeometryKindSet\<close> object.
\<close>

datatype jsvalue = KindValue GeometryKind | ObjectRef ref

text \<open>
  Modelled from the spec: the class \<open>GeometryKindSet\<close> of
  \<open>@here/harp-datasource-protocol\<close> is not in src/. The spec gives it set semantics
  (membership, containment, clear) over geometry kinds, and the loader uses it as an
  ECMAScript \<open>Set\<close>: \<open>instanceof Set\<close>, \<open>add\<close>, \<open>has\<close>, \<open>size\<close>, \<open>clear\<close>,
  iteration and construction from an array. An object of the class has two parts, as every
  ECMAScript \<open>Set\<close> has: the members, kept in the internal slot of the set, and its own
  enumerable properties, which are what \<open>Object.assign\<close> reads and writes. A set made
  by \<open>new GeometryKindSet(...)\<close> has no own property.
\<close>

record SetObject =
  members :: "GeometryKind set"
  ownProps :: "string \<Rightarrow> jsvalue option"

record Heap =
  objects :: "ref \<Rightarrow> SetObject"
  nextRef :: ref

text \<open>\<open>new GeometryKindSet(xs)\<close>: a fresh object holding the elements of the array.\<close>

definition newGeometryKindSet :: "GeometryKind list \<Rightarrow> Heap \<Rightarrow> ref \<times> Heap" where
  "newGeometryKindSet xs h =
     (nextRef h,
      h\<lparr>objects := (objects h)(nextRef h := \<lparr>members = set xs, ownProps = (\<lambda>p. None)\<rparr>),
        nextRef := Suc (nextRef h)\<rparr>)"

text \<open>\<open>s.add(k)\<close>, and the loop \<open>for (const kind of ks) s.add(kind)\<close>.\<close>

definition setAdd :: "ref \<Rightarrow> GeometryKind \<Rightarrow> Heap \<Rightarrow> Heap" where
  "setAdd s k h =
     h\<lparr>objects := (objects h)(s := (objects h s)\<lparr>members := insert k (members (objects h s))\<rparr>)\<rparr>"

definition setAddAll :: "ref \<Rightarrow> GeometryKind set \<Rightarrow> Heap \<Rightarrow> Heap" where
  "setAddAll s ks h =
     h\<lparr>objects := (objects h)(s := (objects h s)\<lparr>members := members (objects h s) \<union> ks\<rparr>)\<rparr>"

text \<open>\<open>s.clear()\<close> empties the object in place: every holder of the reference sees it.\<close>

definition setClear :: "ref \<Rightarrow> Heap \<Rightarrow> Heap" where
  "setClear s h = h\<lparr>objects := (objects h)(s := (objects h s)\<lparr>members := {}\<rparr>)\<rparr>"

text \<open>\<open>s?.clear()\<close> on a field that may be undefined.\<close>

definition optClear :: "ref option \<Rightarrow> Heap \<Rightarrow> Heap" where
  "optClear s h = (case s of None \<Rightarrow> h | Some r \<Rightarrow> setClear r h)"

text \<open>
  \<open>s.size === 0\<close>. A JavaScript set is finite, so its size is zero exactly when it has no
  member.
\<close>

definition sizeIsZero :: "Heap \<Rightarrow> ref \<Rightarrow> bool" where
  "sizeIsZero h s = (members (objects h s) = {})"

text \<open>
  \<open>s.has(v)\<close> is \<open>Set.prototype.has\<close>: it tells whether the one value \<open>v\<close> is a member
  of \<open>s\<close>. The members of a \<open>GeometryKindSet\<close> are geometry kinds, so a value that is a
  reference to an object is never a member.
\<close>

definition setHas :: "Heap \<Rightarrow> ref \<Rightarrow> jsvalue \<Rightarrow> bool" where
  "setHas h s v = (case v of KindValue k \<Rightarrow> k \<in> members (objects h s) | ObjectRef r \<Rightarrow> False)"

text \<open>
  \<open>Object.assign(target, source)\<close> copies the own enumerable properties of the source
  onto the target and returns the target. The members of a set are not properties, so the
  members of the target stay as they are.
\<close>

definition objectAssign :: "ref \<Rightarrow> ref \<Rightarrow> Heap \<Rightarrow> Heap" where
  "objectAssign target source h =
     h\<lparr>objects := (objects h)(target := (objects h target)
          \<lparr>ownProps := ownProps (objects h target) ++ ownProps (objects h source)\<rparr>)\<rparr>"

subsection \<open>Techniques\<close>

text \<open>
  Modelled from the spec: the type \<open>Technique\<close> and its type guards
  (\<open>isFillTechnique\<close>, \<open>isLineTechnique\<close>, ...) of \<open>@here/harp-datasource-protocol\<close> are
  not in src/. A technique is a tagged union; each guard recognises one tag. The tags the
  loader asks about are listed, every other technique is \<open>OtherTechnique\<close>.
\<close>

datatype TechniqueName =
    FillTechnique | LineTechnique | SolidLineTechnique | SegmentsTechnique
  | ExtrudedLineTechnique | ExtrudedPolygonTechnique | PoiTechnique
  | LineMarkerTechnique | TextTechnique | OtherTechnique

text \<open>
  The field \<open>technique.kind\<close>: absent, one kind, an array of kinds, or a
  \<open>GeometryKindSet\<close>.
\<close>

datatype KindField =
    KindUndefined | KindSingle GeometryKind | KindArray "GeometryKind list" | KindSetRef ref

record Technique =
  name :: TechniqueName
  kind :: KindField

definition isFillTechnique :: "Technique \<Rightarrow> bool" where
  "isFillTechnique t = (name t = FillTechnique)"

definition isLineTechnique :: "Technique \<Rightarrow> bool" where
  "isLineTechnique t = (name t = LineTechnique)"

definition isSolidLineTechnique :: "Technique \<Rightarrow> bool" where
  "isSolidLineTechnique t = (name t = SolidLineTechnique)"

definition isSegmentsTechnique :: "Technique \<Rightarrow> bool" where
  "isSegmentsTechnique t = (name t = SegmentsTechnique)"

definition isExtrudedLineTechnique :: "Technique \<Rightarrow> bool" where
  "isExtrudedLineTechnique t = (name t = ExtrudedLineTechnique)"

definition isExtrudedPolygonTechnique :: "Technique \<Rightarrow> bool" where
  "isExtrudedPolygonTechnique t = (name t = ExtrudedPolygonTechnique)"

definition isPoiTechnique :: "Technique \<Rightarrow> bool" where
  "isPoiTechnique t = (name t = PoiTechnique)"

definition isLineMarkerTechnique :: "Technique \<Rightarrow> bool" where
  "isLineMarkerTechnique t = (name t = LineMarkerTechnique)"

definition isTextTechnique :: "Technique \<Rightarrow> bool" where
  "isTextTechnique t = (name t = TextTechnique)"

text \<open>
  \<open>compileGeometryKind(technique)\<close> returns the kind (or the set of kinds) of the
  technique and writes it back into the technique: the result is the returned value, the
  technique after the call and the heap after the call.
\<close>

definition compileGeometryKind :: "Technique \<Rightarrow> Heap \<Rightarrow> jsvalue \<times> Technique \<times> Heap" where
  "compileGeometryKind technique h =
     (case kind technique of
        KindUndefined \<Rightarrow>
          (let geometryKind =
                 (if isFillTechnique technique then Area
                  else if isLineTechnique technique \<or> isSolidLineTechnique technique \<or>
                          isSegmentsTechnique technique \<or> isExtrudedLineTechnique technique
                    then Line
                  else if isExtrudedPolygonTechnique technique then Building
                  else if isPoiTechnique technique \<or> isLineMarkerTechnique technique \<or>
                          isTextTechnique technique
                    then Label
                  else AllKind)
           in (KindValue geometryKind, technique\<lparr>kind := KindSingle geometryKind\<rparr>, h))
      | KindArray xs \<Rightarrow>
          (case newGeometryKindSet xs h of
             (r, h') \<Rightarrow> (ObjectRef r, technique\<lparr>kind := KindSetRef r\<rparr>, h'))
      | KindSingle k \<Rightarrow> (KindValue k, technique, h)
      | KindSetRef r \<Rightarrow> (ObjectRef r, technique, h))"

subsection \<open>Decoded tiles, the tile and the loader\<close>

text \<open>
  A decoded tile is an object too: the tile and the loader hold references to it, and
  compiling the kinds writes into its techniques. Of its content the loader reads the
  array of techniques only (the geometry arrays are read for statistics alone). The
  techniques are kept by value in the array.
\<close>

type_synonym dref = nat

text \<open>
  Modelled from the spec: the class \<open>Tile\<close> is not in src/. These are the fields the
  loader reads: \<open>isVisible\<close>, \<open>disposed\<close>, \<open>decodedTile\<close>, \<open>hasGeometry\<close> and
  \<open>tileLoader?.isFinished\<close> (\<open>None\<close> when the tile has no tile loader). They are
  inputs of the loader: the methods of the tile and of the other collaborators are opaque,
  so a call of one is recorded in the trace and changes no field of the model.
\<close>

record Tile =
  isVisible :: bool
  disposed :: bool
  decodedTile :: "dref option"
  tileLoaderIsFinished :: "bool option"
  hasGeometry :: bool

text \<open>The calls the loader makes on its collaborators, in the order it makes them.\<close>

datatype Event =
    DisposeTile
  | AddMessage
  | AddValue
  | LoadingFinished
  | RemoveDecodedTile
  | ProcessTechniques "ref option" "ref option"
  | TileClear
  | InitDecodedTile dref "ref option" "ref option"
  | CreateAllGeometries dref
  | RequestUpdate

text \<open>
  A task of the queue: its \<open>execute\<close> is \<open>prepare\<close> bound to the loader and to the two
  kind sets of the call that made it, so the task is those two arguments. Its group is
  always \<open>TileTaskGroups.CREATE\<close>; its priority, its expiry and its estimated time are
  closures that the queue evaluates on the state it finds when it asks, and are left out.
\<close>

record Task =
  boundEnabledKinds :: "ref option"
  boundDisabledKinds :: "ref option"

record Loader =
  m_decodedTile :: "dref option"
  m_isFinished :: bool
  m_availableGeometryKinds :: "ref option"
  m_enabledKinds :: "ref option"
  m_disabledKinds :: "ref option"
  m_priority :: int

text \<open>
  The state the loader runs in: the loader, its tile, the two object stores, whether
  \<open>PerformanceStatistics.instance.enabled\<close> holds, the tasks added to the task queue and
  the trace of calls on the collaborators.
\<close>

record World =
  loader :: Loader
  tile :: Tile
  heap :: Heap
  decodedTiles :: "dref \<Rightarrow> Technique list"
  statsEnabled :: bool
  taskQueue :: "Task list"
  trace :: "Event list"

definition emit :: "Event list \<Rightarrow> World \<Rightarrow> World" where
  "emit es w = w\<lparr>trace := trace w @ es\<rparr>"

text \<open>The state of \<open>new TileGeometryLoader(tile, taskQueue)\<close>.\<close>

definition newLoader :: Loader where
  "newLoader = \<lparr>m_decodedTile = None, m_isFinished = False, m_availableGeometryKinds = None,
                m_enabledKinds = None, m_disabledKinds = None, m_priority = 0\<rparr>"

definition geometryCreationPending :: "World \<Rightarrow> bool" where
  "geometryCreationPending w = (\<not> m_isFinished (loader w) \<and> m_decodedTile (loader w) \<noteq> None)"

section \<open>The operations of the loader\<close>

text \<open>The setter and the getter of the priority, and the getters of the loader.\<close>

definition setPriority :: "int \<Rightarrow> World \<Rightarrow> World" where
  "setPriority v w = w\<lparr>loader := (loader w)\<lparr>m_priority := v\<rparr>\<rparr>"

definition getPriority :: "World \<Rightarrow> int" where
  "getPriority w = m_priority (loader w)"

definition isFinished :: "World \<Rightarrow> bool" where
  "isFinished w = m_isFinished (loader w)"

definition availableGeometryKinds :: "World \<Rightarrow> ref option" where
  "availableGeometryKinds w = m_availableGeometryKinds (loader w)"

definition basicGeometryLoaded :: "World \<Rightarrow> bool" where
  "basicGeometryLoaded w = hasGeometry (tile w)"

definition allGeometryLoaded :: "World \<Rightarrow> bool" where
  "allGeometryLoaded w = m_isFinished (loader w)"

text \<open>
  The loop of \<open>prepareAvailableGeometryKinds\<close>: each technique is compiled and its kind
  or kinds are added to \<open>foundSet\<close>.
\<close>

fun gatherKinds :: "Technique list \<Rightarrow> ref \<Rightarrow> Heap \<Rightarrow> Technique list \<times> Heap" where
  "gatherKinds [] foundSet h = ([], h)"
| "gatherKinds (technique # rest) foundSet h =
     (case compileGeometryKind technique h of
        (geometryKind, technique', h1) \<Rightarrow>
          (let h2 = (case geometryKind of
                       ObjectRef r \<Rightarrow> setAddAll foundSet (members (objects h1 r)) h1
                     | KindValue k \<Rightarrow> setAdd foundSet k h1)
           in case gatherKinds rest foundSet h2 of
                (rest', h3) \<Rightarrow> (technique' # rest', h3)))"

definition prepareAvailableGeometryKinds ::
  "Technique list \<Rightarrow> Heap \<Rightarrow> ref \<times> Technique list \<times> Heap" where
  "prepareAvailableGeometryKinds techniques h =
     (case newGeometryKindSet [] h of
        (foundSet, h1) \<Rightarrow>
          (case gatherKinds techniques foundSet h1 of
             (techniques', h2) \<Rightarrow> (foundSet, techniques', h2)))"

definition setDecodedTile :: "dref option \<Rightarrow> World \<Rightarrow> World" where
  "setDecodedTile dt w =
     (let w1 = w\<lparr>loader := (loader w)\<lparr>m_decodedTile := dt\<rparr>\<rparr>
      in case dt of
           None \<Rightarrow> w1
         | Some d \<Rightarrow>
             (case prepareAvailableGeometryKinds (decodedTiles w1 d) (heap w1) of
                (found, techniques', h') \<Rightarrow>
                  w1\<lparr>loader := (loader w1)\<lparr>m_availableGeometryKinds := Some found\<rparr>,
                     heap := h',
                     decodedTiles := (decodedTiles w1)(d := techniques')\<rparr>))"

definition dispose :: "World \<Rightarrow> World" where
  "dispose w = w\<lparr>loader := (loader w)\<lparr>m_decodedTile := None\<rparr>\<rparr>"

definition reset :: "World \<Rightarrow> World" where
  "reset w =
     w\<lparr>heap := optClear (m_disabledKinds (loader w))
                 (optClear (m_enabledKinds (loader w))
                    (optClear (m_availableGeometryKinds (loader w)) (heap w))),
       loader := (loader w)\<lparr>m_decodedTile := None, m_isFinished := False\<rparr>\<rparr>"

definition finish :: "World \<Rightarrow> World" where
  "finish w =
     (let w1 = emit [LoadingFinished, RemoveDecodedTile] w
      in w1\<lparr>loader := (loader w1)\<lparr>m_decodedTile := None, m_isFinished := True\<rparr>\<rparr>)"

text \<open>
  \<open>discardNeedlessTile(tile)\<close> returns whether the tile was discarded, and the state
  after the call.
\<close>

definition discardNeedlessTile :: "World \<Rightarrow> bool \<times> World" where
  "discardNeedlessTile w =
     (if \<not> isVisible (tile w) then
        (let w1 = emit [DisposeTile] w;
             w2 = (if statsEnabled w1 then emit [AddMessage] w1 else w1)
         in (True, finish w2))
      else if disposed (tile w) then
        (let w1 = (if statsEnabled w then emit [AddMessage] w else w)
         in (True, finish w1))
      else (False, w))"

text \<open>
  One axis of \<open>setGeometryKinds\<close>:
  \<open>stored = Object.assign(stored ?? new GeometryKindSet(), kinds)\<close>. It returns the
  reference now stored and the heap.
\<close>

definition assignKinds :: "ref option \<Rightarrow> ref \<Rightarrow> Heap \<Rightarrow> ref \<times> Heap" where
  "assignKinds stored kinds h =
     (case (case stored of Some target \<Rightarrow> (target, h) | None \<Rightarrow> newGeometryKindSet [] h) of
        (target, h1) \<Rightarrow> (target, objectAssign target kinds h1))"

definition setGeometryKinds :: "ref option \<Rightarrow> ref option \<Rightarrow> World \<Rightarrow> World" where
  "setGeometryKinds enabledKinds disabledKinds w =
     (let w1 = (case enabledKinds of
                  None \<Rightarrow> w
                | Some e \<Rightarrow>
                    (case assignKinds (m_enabledKinds (loader w)) e (heap w) of
                       (target, h') \<Rightarrow>
                         w\<lparr>loader := (loader w)\<lparr>m_enabledKinds := Some target\<rparr>, heap := h'\<rparr>))
      in case disabledKinds of
           None \<Rightarrow> w1
         | Some d \<Rightarrow>
             (case assignKinds (m_disabledKinds (loader w1)) d (heap w1) of
                (target, h') \<Rightarrow>
                  w1\<lparr>loader := (loader w1)\<lparr>m_disabledKinds := Some target\<rparr>, heap := h'\<rparr>))"

text \<open>\<open>s === undefined || s.size === 0\<close>.\<close>

definition undefinedOrEmpty :: "Heap \<Rightarrow> ref option \<Rightarrow> bool" where
  "undefinedOrEmpty h s = (case s of None \<Rightarrow> True | Some r \<Rightarrow> sizeIsZero h r)"

text \<open>
  One of the two blocks that end \<open>compareGeometryKinds\<close>: whether the block returns
  \<open>false\<close>. It is entered when the axis is not empty; then a side that is undefined is a
  difference, and otherwise \<open>!kinds.has(stored)\<close> decides, where the argument of
  \<open>has\<close> is the stored set object itself.
\<close>

definition axisDiffers :: "Heap \<Rightarrow> ref option \<Rightarrow> ref option \<Rightarrow> bool" where
  "axisDiffers h stored kinds =
     (case kinds of
        None \<Rightarrow> True
      | Some k \<Rightarrow>
          (case stored of
             None \<Rightarrow> True
           | Some s \<Rightarrow> \<not> setHas h k (ObjectRef s)))"

definition compareGeometryKinds :: "ref option \<Rightarrow> ref option \<Rightarrow> World \<Rightarrow> bool" where
  "compareGeometryKinds enabledKinds disabledKinds w =
     (let enabledSame = (m_enabledKinds (loader w) = enabledKinds);
          disabledSame = (m_disabledKinds (loader w) = disabledKinds)
      in if enabledSame \<and> disabledSame then True
         else
           (let enabledEmpty = (undefinedOrEmpty (heap w) (m_enabledKinds (loader w)) \<and>
                                undefinedOrEmpty (heap w) enabledKinds);
                disabledEmpty = (undefinedOrEmpty (heap w) (m_disabledKinds (loader w)) \<and>
                                 undefinedOrEmpty (heap w) disabledKinds)
            in if (enabledEmpty \<and> disabledEmpty) \<or> (enabledSame \<and> disabledEmpty) \<or>
                  (disabledSame \<and> enabledEmpty)
               then True
               else if \<not> enabledEmpty \<and>
                       axisDiffers (heap w) (m_enabledKinds (loader w)) enabledKinds
               then False
               else if \<not> disabledEmpty \<and>
                       axisDiffers (heap w) (m_disabledKinds (loader w)) disabledKinds
               then False
               else True))"

text \<open>
  \<open>TileGeometryCreator.instance.processTechniques(tile, enabledKinds, disabledKinds)\<close>,
  a call on a collaborator.
\<close>

definition processTechniques :: "ref option \<Rightarrow> ref option \<Rightarrow> World \<Rightarrow> World" where
  "processTechniques enabledKinds disabledKinds w =
     emit [ProcessTechniques enabledKinds disabledKinds] w"

definition prepareForRender :: "ref option \<Rightarrow> ref option \<Rightarrow> World \<Rightarrow> World" where
  "prepareForRender enabledKinds disabledKinds w =
     (case m_decodedTile (loader w) of
        None \<Rightarrow> finish w
      | Some d \<Rightarrow>
          w\<lparr>taskQueue := taskQueue w @
               [\<lparr>boundEnabledKinds = enabledKinds, boundDisabledKinds = disabledKinds\<rparr>]\<rparr>)"

text \<open>
  \<open>prepare\<close> is the action of a queued task. With statistics enabled it adds nine
  values and one message to the current frame; the times themselves are not modelled.
\<close>

definition prepare :: "ref option \<Rightarrow> ref option \<Rightarrow> World \<Rightarrow> World" where
  "prepare enabledKinds disabledKinds w =
     (case m_decodedTile (loader w) of
        None \<Rightarrow> finish w
      | Some d \<Rightarrow>
          (case discardNeedlessTile w of
             (True, w1) \<Rightarrow> w1
           | (False, w1) \<Rightarrow>
               (let w2 = emit [TileClear, InitDecodedTile d enabledKinds disabledKinds,
                               CreateAllGeometries d] w1;
                    w3 = (if statsEnabled w2 then emit (replicate 9 AddValue @ [AddMessage]) w2
                          else w2)
                in emit [RequestUpdate] (finish w3))))"

definition update :: "ref option \<Rightarrow> ref option \<Rightarrow> World \<Rightarrow> World" where
  "update enabledKinds disabledKinds w =
     (if m_isFinished (loader w) then w
      else
        (case discardNeedlessTile w of
           (True, w1) \<Rightarrow> w1
         | (False, w1) \<Rightarrow>
             if tileLoaderIsFinished (tile w1) = Some True \<and> decodedTile (tile w1) = None
             then finish w1
             else
               (let w2 = (if geometryCreationPending w1 \<and>
                             \<not> compareGeometryKinds enabledKinds disabledKinds w1
                          then reset w1 else w1)
                in if \<not> geometryCreationPending w2 \<and> decodedTile (tile w2) \<noteq> None
                   then prepareForRender enabledKinds disabledKinds
                          (setDecodedTile (decodedTile (tile w2))
                             (setGeometryKinds enabledKinds disabledKinds
                                (processTechniques enabledKinds disabledKinds w2)))
                   else w2)))"

section \<open>Equivalence of two kind configurations, in the words of the spec\<close>

text \<open>
  This definition follows the spec (section 4.3), not the code; it is what
  \<open>compareGeometryKinds\<close> is compared with. An axis matches if both sides are the same
  reference or both are undefined or empty; it differs if exactly one side is undefined or
  empty; two non-empty sets match if one contains every element of the other. Two
  configurations are equivalent if both axes match.
\<close>

definition axisEquivalent :: "Heap \<Rightarrow> ref option \<Rightarrow> ref option \<Rightarrow> bool" where
  "axisEquivalent h stored kinds =
     (if stored = kinds \<or> (undefinedOrEmpty h stored \<and> undefinedOrEmpty h kinds) then True
      else if undefinedOrEmpty h stored \<or> undefinedOrEmpty h kinds then False
      else (case (stored, kinds) of
              (Some s, Some k) \<Rightarrow>
                members (objects h k) \<subseteq> members (objects h s) \<or>
                members (objects h s) \<subseteq> members (objects h k)
            | _ \<Rightarrow> False))"

definition kindsEquivalent :: "ref option \<Rightarrow> ref option \<Rightarrow> World \<Rightarrow> bool" where
  "kindsEquivalent enabledKinds disabledKinds w =
     (axisEquivalent (heap w) (m_enabledKinds (loader w)) enabledKinds \<and>
      axisEquivalent (heap w) (m_disabledKinds (loader w)) disabledKinds)"

section \<open>The invariant and the states used as examples\<close>

text \<open>A finished loader holds no decoded tile.\<close>

definition payloadCleared :: "World \<Rightarrow> bool" where
  "payloadCleared w = (m_isFinished (loader w) \<longrightarrow> m_decodedTile (loader w) = None)"

text \<open>
  The stored kinds of the loader have no member: each of the two fields is undefined or
  refers to an allocated set object that is empty.
\<close>

definition emptyStored :: "Heap \<Rightarrow> ref option \<Rightarrow> bool" where
  "emptyStored h s =
     (case s of None \<Rightarrow> True | Some r \<Rightarrow> r < nextRef h \<and> members (objects h r) = {})"

definition storedKindsEmpty :: "World \<Rightarrow> bool" where
  "storedKindsEmpty w =
     (emptyStored (heap w) (m_enabledKinds (loader w)) \<and>
      emptyStored (heap w) (m_disabledKinds (loader w)))"

text \<open>
  Two relations between the heap before and after a step: every allocated object keeps its
  members, and every allocated object but one keeps its members.
\<close>

definition keepsMembers :: "Heap \<Rightarrow> Heap \<Rightarrow> bool" where
  "keepsMembers h h' =
     (nextRef h \<le> nextRef h' \<and>
      (\<forall>r. r < nextRef h \<longrightarrow> members (objects h' r) = members (objects h r)))"

definition keepsExcept :: "ref \<Rightarrow> Heap \<Rightarrow> Heap \<Rightarrow> bool" where
  "keepsExcept f h h' =
     (nextRef h \<le> nextRef h' \<and>
      (\<forall>r. r < nextRef h \<and> r \<noteq> f \<longrightarrow> members (objects h' r) = members (objects h r)))"

text \<open>
  The heap of the examples holds two distinct set objects, at the addresses 0 and 1, each
  with the one member \<open>Line\<close>. The tile is visible, is not disposed and has the decoded
  tile 0, whose one technique is a solid line without a kind.
\<close>

definition exampleHeap :: Heap where
  "exampleHeap =
     \<lparr>objects = (\<lambda>r. \<lparr>members = (if r < 2 then {Line} else {}), ownProps = (\<lambda>p. None)\<rparr>),
      nextRef = 2\<rparr>"

definition exampleTile :: Tile where
  "exampleTile = \<lparr>isVisible = True, disposed = False, decodedTile = Some 0,
                  tileLoaderIsFinished = Some True, hasGeometry = False\<rparr>"

definition exampleTechnique :: Technique where
  "exampleTechnique = \<lparr>name = SolidLineTechnique, kind = KindUndefined\<rparr>"

definition exampleWorld :: World where
  "exampleWorld =
     \<lparr>loader = newLoader, tile = exampleTile, heap = exampleHeap,
      decodedTiles = (\<lambda>d. [exampleTechnique]),
      statsEnabled = False, taskQueue = [], trace = []\<rparr>"

text \<open>The same with a tile that is not visible.\<close>

definition invisibleWorld :: World where
  "invisibleWorld = exampleWorld\<lparr>tile := exampleTile\<lparr>isVisible := False\<rparr>\<rparr>"

text \<open>The same with a loader that is finished.\<close>

definition finishedWorld :: World where
  "finishedWorld = exampleWorld\<lparr>loader := newLoader\<lparr>m_isFinished := True\<rparr>\<rparr>"

text \<open>
  The state after \<open>update(undefined, undefined)\<close> on the fresh loader: a build is
  pending and its task is queued.
\<close>

definition pendingWorld :: World where
  "pendingWorld = update None None exampleWorld"

text \<open>The pending state once the tile has left the view.\<close>

definition pendingInvisibleWorld :: World where
  "pendingInvisibleWorld = pendingWorld\<lparr>tile := exampleTile\<lparr>isVisible := False\<rparr>\<rparr>"

text \<open>
  The pending state once the tile has lost its decoded tile while its tile loader is still
  loading.
\<close>

definition pendingNoDataWorld :: World where
  "pendingNoDataWorld =
     pendingWorld\<lparr>tile := exampleTile\<lparr>decodedTile := None, tileLoaderIsFinished := Some False\<rparr>\<rparr>"

text \<open>
  The state after \<open>update(a, b)\<close> on the fresh loader, \<open>a\<close> and \<open>b\<close> the set objects
  0 and 1, and after the loader has finished from there: all three kind sets of the loader
  are defined.
\<close>

definition configuredWorld :: World where
  "configuredWorld = finish (update (Some 0) (Some 1) exampleWorld)"

section \<open>Kind classification\<close>

lemma compileGeometryKind_undefined:
  "kind t = KindUndefined \<Longrightarrow>
     \<exists>k. compileGeometryKind t h = (KindValue k, t\<lparr>kind := KindSingle k\<rparr>, h)"
  by (simp add: compileGeometryKind_def Let_def)

lemma compileGeometryKind_single:
  "kind t = KindSingle k \<Longrightarrow> compileGeometryKind t h = (KindValue k, t, h)"
  by (simp add: compileGeometryKind_def)

lemmas guard_defs =
  isFillTechnique_def isLineTechnique_def isSolidLineTechnique_def isSegmentsTechnique_def
  isExtrudedLineTechnique_def isExtrudedPolygonTechnique_def isPoiTechnique_def
  isLineMarkerTechnique_def isTextTechnique_def

text \<open>
  Claim C6. For a technique whose \<open>kind\<close> is absent, \<open>compileGeometryKind\<close> returns
  \<open>Area\<close> for a fill technique, \<open>Line\<close> for a line, solid-line, segments or extruded-line
  technique, \<open>Building\<close> for an extruded-polygon technique, \<open>Label\<close> for a poi,
  line-marker or text technique and \<open>All\<close> for a technique that none of the guards
  recognises; it writes that kind into the technique and touches nothing else; and a
  further call on the technique as written returns the same kind, at any heap, and changes
  the technique no more.
\<close>

theorem compileGeometryKind_default:
  assumes "kind t = KindUndefined"
  shows "\<exists>k t'. compileGeometryKind t h = (KindValue k, t', h)
           \<and> t' = t\<lparr>kind := KindSingle k\<rparr>
           \<and> (isFillTechnique t \<longrightarrow> k = Area)
           \<and> (isLineTechnique t \<or> isSolidLineTechnique t \<or> isSegmentsTechnique t \<or>
                isExtrudedLineTechnique t \<longrightarrow> k = Line)
           \<and> (isExtrudedPolygonTechnique t \<longrightarrow> k = Building)
           \<and> (isPoiTechnique t \<or> isLineMarkerTechnique t \<or> isTextTechnique t \<longrightarrow> k = Label)
           \<and> (\<not> (isFillTechnique t \<or> isLineTechnique t \<or> isSolidLineTechnique t \<or>
                   isSegmentsTechnique t \<or> isExtrudedLineTechnique t \<or>
                   isExtrudedPolygonTechnique t \<or> isPoiTechnique t \<or>
                   isLineMarkerTechnique t \<or> isTextTechnique t) \<longrightarrow> k = AllKind)
           \<and> (\<forall>h'. compileGeometryKind t' h' = (KindValue k, t', h'))"
proof -
  obtain k where k: "compileGeometryKind t h = (KindValue k, t\<lparr>kind := KindSingle k\<rparr>, h)"
    using compileGeometryKind_undefined [OF assms] by blast
  have again: "\<forall>h'. compileGeometryKind (t\<lparr>kind := KindSingle k\<rparr>) h'
                  = (KindValue k, t\<lparr>kind := KindSingle k\<rparr>, h')"
    by (simp add: compileGeometryKind_single)
  have cls: "(isFillTechnique t \<longrightarrow> k = Area)
           \<and> (isLineTechnique t \<or> isSolidLineTechnique t \<or> isSegmentsTechnique t \<or>
                isExtrudedLineTechnique t \<longrightarrow> k = Line)
           \<and> (isExtrudedPolygonTechnique t \<longrightarrow> k = Building)
           \<and> (isPoiTechnique t \<or> isLineMarkerTechnique t \<or> isTextTechnique t \<longrightarrow> k = Label)
           \<and> (\<not> (isFillTechnique t \<or> isLineTechnique t \<or> isSolidLineTechnique t \<or>
                   isSegmentsTechnique t \<or> isExtrudedLineTechnique t \<or>
                   isExtrudedPolygonTechnique t \<or> isPoiTechnique t \<or>
                   isLineMarkerTechnique t \<or> isTextTechnique t) \<longrightarrow> k = AllKind)"
    using k assms
    by (cases "name t") (simp_all add: compileGeometryKind_def Let_def guard_defs)
  show ?thesis using k again cls by blast
qed

theorem compileGeometryKind_default_witness:
  "kind exampleTechnique = KindUndefined
   \<and> isSolidLineTechnique exampleTechnique
   \<and> compileGeometryKind exampleTechnique exampleHeap
       = (KindValue Line, exampleTechnique\<lparr>kind := KindSingle Line\<rparr>, exampleHeap)
   \<and> compileGeometryKind (exampleTechnique\<lparr>kind := KindSingle Line\<rparr>) exampleHeap
       = (KindValue Line, exampleTechnique\<lparr>kind := KindSingle Line\<rparr>, exampleHeap)"
proof -
  have absent: "kind exampleTechnique = KindUndefined"
    by (simp add: exampleTechnique_def)
  have solid: "isSolidLineTechnique exampleTechnique"
    by (simp add: exampleTechnique_def isSolidLineTechnique_def)
  from compileGeometryKind_default [OF absent, of exampleHeap] solid absent
  show ?thesis by auto
qed

section \<open>Field-wise effect of the operations\<close>

lemma finish_fields:
  "m_isFinished (loader (finish w))"
  "m_decodedTile (loader (finish w)) = None"
  "taskQueue (finish w) = taskQueue w"
  "trace (finish w) = trace w @ [LoadingFinished, RemoveDecodedTile]"
  "heap (finish w) = heap w"
  "tile (finish w) = tile w"
  by (simp_all add: finish_def emit_def Let_def)

lemma reset_fields:
  "\<not> m_isFinished (loader (reset w))"
  "m_decodedTile (loader (reset w)) = None"
  "taskQueue (reset w) = taskQueue w"
  "trace (reset w) = trace w"
  "tile (reset w) = tile w"
  "m_availableGeometryKinds (loader (reset w)) = m_availableGeometryKinds (loader w)"
  "m_enabledKinds (loader (reset w)) = m_enabledKinds (loader w)"
  "m_disabledKinds (loader (reset w)) = m_disabledKinds (loader w)"
  by (simp_all add: reset_def)

lemma processTechniques_fields:
  "loader (processTechniques e d w) = loader w"
  "taskQueue (processTechniques e d w) = taskQueue w"
  "tile (processTechniques e d w) = tile w"
  "heap (processTechniques e d w) = heap w"
  by (simp_all add: processTechniques_def emit_def)

lemma setGeometryKinds_fields:
  "m_isFinished (loader (setGeometryKinds e d w)) = m_isFinished (loader w)"
  "m_decodedTile (loader (setGeometryKinds e d w)) = m_decodedTile (loader w)"
  "taskQueue (setGeometryKinds e d w) = taskQueue w"
  "tile (setGeometryKinds e d w) = tile w"
  "trace (setGeometryKinds e d w) = trace w"
  by (simp_all add: setGeometryKinds_def Let_def split: option.splits prod.splits)

lemma setDecodedTile_fields:
  "m_isFinished (loader (setDecodedTile dt w)) = m_isFinished (loader w)"
  "m_decodedTile (loader (setDecodedTile dt w)) = dt"
  "taskQueue (setDecodedTile dt w) = taskQueue w"
  "tile (setDecodedTile dt w) = tile w"
  "trace (setDecodedTile dt w) = trace w"
  by (simp_all add: setDecodedTile_def Let_def split: option.splits prod.splits)

lemma optClear_members:
  "members (objects (optClear s h) r) = (if s = Some r then {} else members (objects h r))"
  by (simp add: optClear_def setClear_def split: option.splits)

lemma discardNeedlessTile_fields:
  "fst (discardNeedlessTile w) = (\<not> isVisible (tile w) \<or> disposed (tile w))"
  "fst (discardNeedlessTile w) \<Longrightarrow> m_isFinished (loader (snd (discardNeedlessTile w)))"
  "fst (discardNeedlessTile w) \<Longrightarrow> m_decodedTile (loader (snd (discardNeedlessTile w))) = None"
  "\<not> fst (discardNeedlessTile w) \<Longrightarrow> snd (discardNeedlessTile w) = w"
  by (auto simp add: discardNeedlessTile_def finish_fields Let_def)

text \<open>The definitions that evaluating an operation on an example state unfolds.\<close>

lemmas operation_defs =
  update_def discardNeedlessTile_def finish_def emit_def reset_def dispose_def
  geometryCreationPending_def compareGeometryKinds_def axisDiffers_def undefinedOrEmpty_def
  sizeIsZero_def setHas_def processTechniques_def setGeometryKinds_def assignKinds_def
  objectAssign_def newGeometryKindSet_def setDecodedTile_def prepareAvailableGeometryKinds_def
  compileGeometryKind_def prepareForRender_def prepare_def optClear_def setClear_def
  setAdd_def setAddAll_def guard_defs Let_def

lemmas example_defs =
  exampleWorld_def exampleHeap_def exampleTile_def exampleTechnique_def newLoader_def
  invisibleWorld_def finishedWorld_def pendingWorld_def
  pendingInvisibleWorld_def pendingNoDataWorld_def configuredWorld_def

section \<open>The update of a finished loader\<close>

text \<open>
  Claim C7. On a loader whose \<open>isFinished\<close> is true, \<open>update\<close> with any two kind sets
  returns at once: the loader, the tile, both object stores, the task queue and the trace
  of calls on the collaborators are all as before.
\<close>

theorem update_finished_noop:
  assumes "m_isFinished (loader w)"
  shows "update enabledKinds disabledKinds w = w"
  using assms by (simp add: update_def)

theorem update_finished_noop_witness:
  "m_isFinished (loader finishedWorld) \<and> update (Some 0) None finishedWorld = finishedWorld"
proof -
  have fin: "m_isFinished (loader finishedWorld)"
    by (simp add: finishedWorld_def)
  from update_finished_noop [OF fin, of "Some 0" None] fin show ?thesis by simp
qed

section \<open>Discarding a tile that is not visible\<close>

text \<open>
  Claim C5. When \<open>update\<close> is called on a loader that is not finished and the tile is
  not visible, the loader is finished after the call, \<open>disposeTile\<close> of the visible
  tile set has been called exactly once (followed by the message of the statistics when
  these are enabled and by the two notifications of \<open>finish\<close>), and the task queue is as
  before: no task is added.
\<close>

theorem update_invisible_discards:
  assumes "\<not> m_isFinished (loader w)" and "\<not> isVisible (tile w)"
  shows "m_isFinished (loader (update enabledKinds disabledKinds w))
       \<and> trace (update enabledKinds disabledKinds w)
           = trace w @ [DisposeTile] @ (if statsEnabled w then [AddMessage] else [])
               @ [LoadingFinished, RemoveDecodedTile]
       \<and> taskQueue (update enabledKinds disabledKinds w) = taskQueue w"
  using assms by (simp add: update_def discardNeedlessTile_def finish_def emit_def Let_def)

theorem update_invisible_discards_witness:
  "\<not> m_isFinished (loader invisibleWorld) \<and> \<not> isVisible (tile invisibleWorld)
   \<and> m_isFinished (loader (update (Some 0) None invisibleWorld))
   \<and> trace (update (Some 0) None invisibleWorld)
        = [DisposeTile, LoadingFinished, RemoveDecodedTile]
   \<and> taskQueue (update (Some 0) None invisibleWorld) = []"
proof -
  have nf: "\<not> m_isFinished (loader invisibleWorld)"
    by (simp add: example_defs)
  have nv: "\<not> isVisible (tile invisibleWorld)"
    by (simp add: example_defs)
  have st: "\<not> statsEnabled invisibleWorld" "trace invisibleWorld = []"
    "taskQueue invisibleWorld = []"
    by (simp_all add: example_defs)
  from update_invisible_discards [OF nf nv, of "Some 0" None] nf nv st
  show ?thesis by simp
qed

section \<open>The build action without a decoded tile\<close>

text \<open>
  Claim C8. When the queued action \<open>prepare\<close> runs while the loader holds no decoded
  tile, it does what \<open>finish\<close> does and nothing more: the loader is finished, the tile
  has been told \<open>loadingFinished\<close> and \<open>removeDecodedTile\<close>, and no call of the
  geometry creator (\<open>initDecodedTile\<close>, \<open>createAllGeometries\<close>) is made. The action has
  no outcome that is an error.
\<close>

theorem prepare_without_payload_finishes:
  assumes "m_decodedTile (loader w) = None"
  shows "prepare enabledKinds disabledKinds w = finish w
       \<and> m_isFinished (loader (prepare enabledKinds disabledKinds w))
       \<and> trace (prepare enabledKinds disabledKinds w)
           = trace w @ [LoadingFinished, RemoveDecodedTile]
       \<and> taskQueue (prepare enabledKinds disabledKinds w) = taskQueue w"
  using assms by (simp add: prepare_def finish_fields)

theorem prepare_without_payload_finishes_witness:
  "m_decodedTile (loader exampleWorld) = None
   \<and> m_isFinished (loader (prepare (Some 0) None exampleWorld))
   \<and> trace (prepare (Some 0) None exampleWorld) = [LoadingFinished, RemoveDecodedTile]"
proof -
  have np: "m_decodedTile (loader exampleWorld) = None"
    by (simp add: example_defs)
  have tr: "trace exampleWorld = []"
    by (simp add: example_defs)
  from prepare_without_payload_finishes [OF np, of "Some 0" None] np tr
  show ?thesis by (simp add: finish_fields)
qed

section \<open>Reset\<close>

text \<open>
  Claim C10. After \<open>reset\<close> the loader is not finished, whatever it was before, and
  holds no decoded tile; each of the fields for the available, the enabled and the
  disabled kinds holds the reference it held before (a field that was defined stays
  defined), and the set object behind each such reference has size 0 in the heap after the
  call. The objects are emptied in place, so whoever took the reference from the getter
  \<open>availableGeometryKinds\<close> before the call finds the set empty after it.
\<close>

theorem reset_empties_in_place:
  "\<not> m_isFinished (loader (reset w))
   \<and> m_decodedTile (loader (reset w)) = None
   \<and> m_availableGeometryKinds (loader (reset w)) = m_availableGeometryKinds (loader w)
   \<and> m_enabledKinds (loader (reset w)) = m_enabledKinds (loader w)
   \<and> m_disabledKinds (loader (reset w)) = m_disabledKinds (loader w)
   \<and> (\<forall>r. Some r \<in> {m_availableGeometryKinds (loader w), m_enabledKinds (loader w),
                       m_disabledKinds (loader w)}
          \<longrightarrow> sizeIsZero (heap (reset w)) r)
   \<and> (\<forall>r. availableGeometryKinds w = Some r
          \<longrightarrow> availableGeometryKinds (reset w) = Some r \<and> sizeIsZero (heap (reset w)) r)"
  by (auto simp add: reset_def sizeIsZero_def optClear_members availableGeometryKinds_def)

lemma configuredWorld_fields:
  "m_isFinished (loader configuredWorld)"
  "m_availableGeometryKinds (loader configuredWorld) = Some 4"
  "m_enabledKinds (loader configuredWorld) = Some 2"
  "m_disabledKinds (loader configuredWorld) = Some 3"
  "members (objects (heap configuredWorld) 4) = {Line}"
  by (simp_all add: example_defs operation_defs)

theorem reset_empties_in_place_witness:
  "m_isFinished (loader configuredWorld)
   \<and> availableGeometryKinds configuredWorld = Some 4
   \<and> availableGeometryKinds (reset configuredWorld) = Some 4
   \<and> m_availableGeometryKinds (loader configuredWorld) = Some 4
   \<and> members (objects (heap configuredWorld) 4) = {Line}
   \<and> \<not> m_isFinished (loader (reset configuredWorld))
   \<and> m_availableGeometryKinds (loader (reset configuredWorld)) = Some 4
   \<and> sizeIsZero (heap (reset configuredWorld)) 4
   \<and> sizeIsZero (heap (reset configuredWorld)) 2
   \<and> sizeIsZero (heap (reset configuredWorld)) 3"
  using reset_empties_in_place [of configuredWorld] configuredWorld_fields
  by (simp add: availableGeometryKinds_def)

section \<open>A finished loader holds no decoded tile\<close>

lemma pendingWorld_fields:
  "\<not> m_isFinished (loader pendingWorld)"
  "m_decodedTile (loader pendingWorld) = Some 0"
  "m_availableGeometryKinds (loader pendingWorld) = Some 2"
  "m_enabledKinds (loader pendingWorld) = None"
  "m_disabledKinds (loader pendingWorld) = None"
  "members (objects (heap pendingWorld) 2) = {Line}"
  "members (objects (heap pendingWorld) 0) = {Line}"
  "taskQueue pendingWorld = [\<lparr>boundEnabledKinds = None, boundDisabledKinds = None\<rparr>]"
  "tile pendingWorld = exampleTile"
  "statsEnabled pendingWorld = False"
  by (simp_all add: example_defs operation_defs)

lemma prepare_payloadCleared: "payloadCleared (prepare e d w)"
  by (simp add: payloadCleared_def prepare_def discardNeedlessTile_def finish_def emit_def Let_def split: option.splits)

lemma prepareForRender_payloadCleared: "payloadCleared w \<Longrightarrow> payloadCleared (prepareForRender e d w)"
  by (auto simp add: payloadCleared_def prepareForRender_def finish_def emit_def Let_def split: option.splits)

lemma update_payloadCleared: "payloadCleared w \<Longrightarrow> payloadCleared (update e d w)"
  by (auto simp add: payloadCleared_def update_def discardNeedlessTile_def finish_fields
         prepareForRender_def setDecodedTile_fields setGeometryKinds_fields processTechniques_fields
          reset_fields geometryCreationPending_def
          Let_def split: option.splits)

text \<open>
  Claim C9, as the code has it. After the queued build action, \<open>reset\<close>, \<open>dispose\<close>,
  \<open>finish\<close> and a discard by \<open>discardNeedlessTile\<close>, a loader that is finished holds
  no decoded tile; \<open>update\<close> and \<open>prepareForRender\<close> keep that property when it held
  before the call; \<open>setDecodedTile\<close> keeps it when the loader is not finished at the
  call or the argument is undefined, since it stores its argument without looking at
  \<open>isFinished\<close>.
\<close>

theorem payloadCleared_preserved:
  "payloadCleared (prepare e d w) \<and> payloadCleared (reset w) \<and> payloadCleared (dispose w)
   \<and> payloadCleared (finish w)
   \<and> (fst (discardNeedlessTile w) \<longrightarrow> payloadCleared (snd (discardNeedlessTile w)))
   \<and> (payloadCleared w \<longrightarrow> payloadCleared (prepareForRender e d w))
   \<and> (payloadCleared w \<longrightarrow> payloadCleared (update e d w))
   \<and> (\<not> m_isFinished (loader w) \<or> dt = None \<longrightarrow> payloadCleared (setDecodedTile dt w))"
proof -
  have "payloadCleared (reset w)" by (simp add: payloadCleared_def reset_fields)
  moreover have "payloadCleared (dispose w)" by (simp add: payloadCleared_def dispose_def)
  moreover have "payloadCleared (finish w)" by (simp add: payloadCleared_def finish_fields)
  moreover have "fst (discardNeedlessTile w) \<longrightarrow> payloadCleared (snd (discardNeedlessTile w))"
    by (simp add: payloadCleared_def discardNeedlessTile_fields)
  moreover have "\<not> m_isFinished (loader w) \<or> dt = None \<longrightarrow> payloadCleared (setDecodedTile dt w)"
    by (auto simp add: payloadCleared_def setDecodedTile_fields)
  ultimately show ?thesis
    using prepare_payloadCleared [of e d w] prepareForRender_payloadCleared [of w e d] update_payloadCleared [of w e d]
    by blast
qed

theorem payloadCleared_preserved_witness:
  "payloadCleared pendingWorld \<and> \<not> m_isFinished (loader pendingWorld)
   \<and> payloadCleared (update (Some 0) None pendingWorld)
   \<and> payloadCleared (setDecodedTile (Some 0) pendingWorld)
   \<and> payloadCleared (prepare None None pendingWorld)
   \<and> fst (discardNeedlessTile pendingInvisibleWorld)
   \<and> payloadCleared (snd (discardNeedlessTile pendingInvisibleWorld))"
proof -
  have a: "payloadCleared pendingWorld" "\<not> m_isFinished (loader pendingWorld)"
    by (simp_all add: payloadCleared_def pendingWorld_fields)
  have b: "fst (discardNeedlessTile pendingInvisibleWorld)"
    by (simp add: discardNeedlessTile_fields pendingInvisibleWorld_def exampleTile_def)
  from payloadCleared_preserved [of None None pendingWorld "Some 0"]
    payloadCleared_preserved [of "Some 0" None pendingWorld "Some 0"]
    payloadCleared_preserved [of None None pendingInvisibleWorld None] a b
  show ?thesis by blast
qed

text \<open>
  Claim C9 as stated fails for \<open>setDecodedTile\<close>: a loader that \<open>update\<close> has
  finished, because its tile is not visible, and that is then given a decoded tile is
  finished and holds that decoded tile.
\<close>

theorem setDecodedTile_on_finished_counterexample:
  "m_isFinished (loader (setDecodedTile (Some 0) (update None None invisibleWorld)))
   \<and> m_decodedTile (loader (setDecodedTile (Some 0) (update None None invisibleWorld))) = Some 0
   \<and> \<not> payloadCleared (setDecodedTile (Some 0) (update None None invisibleWorld))"
proof -
  have "m_isFinished (loader (update None None invisibleWorld))"
    by (simp add: example_defs update_def discardNeedlessTile_def finish_def emit_def Let_def)
  then show ?thesis
    by (simp add: payloadCleared_def setDecodedTile_fields)
qed

section \<open>A change of the kinds while a build is pending\<close>







section \<open>Comparing the kinds of a call with the stored ones\<close>

text \<open>
  When an axis has two set objects that are distinct and both non-empty, the block of that
  axis is entered and asks \<open>kinds.has(stored)\<close>, whether the stored set object is one
  of the members of the new set. It never is, so in such a state
  \<open>compareGeometryKinds\<close> reports a difference whatever the members of the two sets
  are. (The lemmas further down show that the loader never is in such a state.)
\<close>

lemma compareGeometryKinds_enabled_nonempty:
  assumes "m_enabledKinds (loader w) = Some s" "enabledKinds = Some k" "s \<noteq> k"
    "\<not> sizeIsZero (heap w) s" "\<not> sizeIsZero (heap w) k"
  shows "\<not> compareGeometryKinds enabledKinds disabledKinds w"
  using assms
  by (simp add: compareGeometryKinds_def axisDiffers_def undefinedOrEmpty_def setHas_def Let_def)

lemma compareGeometryKinds_disabled_nonempty:
  assumes "m_disabledKinds (loader w) = Some s" "disabledKinds = Some k" "s \<noteq> k"
    "\<not> sizeIsZero (heap w) s" "\<not> sizeIsZero (heap w) k"
  shows "\<not> compareGeometryKinds enabledKinds disabledKinds w"
  using assms
  by (simp add: compareGeometryKinds_def axisDiffers_def undefinedOrEmpty_def setHas_def Let_def
        split: option.splits)

text \<open>
  What \<open>compareGeometryKinds\<close> does establish: it returns \<open>true\<close> only when each
  axis is the same reference on both sides or is undefined or empty on both sides, hence
  only for configurations that are equivalent in the words of the spec. A configuration
  that is not equivalent to the stored one is always reported as different.
\<close>

lemma axisDiffers_nonempty:
  "\<not> (undefinedOrEmpty h stored \<and> undefinedOrEmpty h kinds) \<Longrightarrow> axisDiffers h stored kinds"
  by (simp add: axisDiffers_def setHas_def split: option.splits)

lemma axisEquivalent_same_or_empty:
  "stored = kinds \<or> (undefinedOrEmpty h stored \<and> undefinedOrEmpty h kinds)
     \<Longrightarrow> axisEquivalent h stored kinds"
  by (simp add: axisEquivalent_def)

lemma compareGeometryKinds_same_or_empty:
  assumes "compareGeometryKinds e d w"
  shows "(m_enabledKinds (loader w) = e
            \<or> (undefinedOrEmpty (heap w) (m_enabledKinds (loader w)) \<and> undefinedOrEmpty (heap w) e))
       \<and> (m_disabledKinds (loader w) = d
            \<or> (undefinedOrEmpty (heap w) (m_disabledKinds (loader w)) \<and> undefinedOrEmpty (heap w) d))"
proof -
  define se where "se = (m_enabledKinds (loader w) = e)"
  define sd where "sd = (m_disabledKinds (loader w) = d)"
  define ee where "ee = (undefinedOrEmpty (heap w) (m_enabledKinds (loader w))
                         \<and> undefinedOrEmpty (heap w) e)"
  define ed where "ed = (undefinedOrEmpty (heap w) (m_disabledKinds (loader w))
                         \<and> undefinedOrEmpty (heap w) d)"
  have de: "\<not> ee \<Longrightarrow> axisDiffers (heap w) (m_enabledKinds (loader w)) e"
    unfolding ee_def by (rule axisDiffers_nonempty)
  have dd: "\<not> ed \<Longrightarrow> axisDiffers (heap w) (m_disabledKinds (loader w)) d"
    unfolding ed_def by (rule axisDiffers_nonempty)
  have c: "compareGeometryKinds e d w =
             (if se \<and> sd then True
              else if (ee \<and> ed) \<or> (se \<and> ed) \<or> (sd \<and> ee) then True
              else if \<not> ee \<and> axisDiffers (heap w) (m_enabledKinds (loader w)) e then False
              else if \<not> ed \<and> axisDiffers (heap w) (m_disabledKinds (loader w)) d then False
              else True)"
    unfolding compareGeometryKinds_def Let_def se_def sd_def ee_def ed_def by (rule refl)
  have "(se \<or> ee) \<and> (sd \<or> ed)"
  proof (rule ccontr)
    assume n: "\<not> ((se \<or> ee) \<and> (sd \<or> ed))"
    show False
    proof (cases ee)
      case False
      with n de assms show False unfolding c by (simp split: if_splits)
    next
      case True
      with n have "\<not> sd" "\<not> ed" by auto
      with True dd assms show False unfolding c by (simp split: if_splits)
    qed
  qed
  then show ?thesis by (simp add: se_def sd_def ee_def ed_def)
qed

lemma compareGeometryKinds_sound:
  assumes "compareGeometryKinds e d w"
  shows "kindsEquivalent e d w"
  using compareGeometryKinds_same_or_empty [OF assms]
  by (simp add: kindsEquivalent_def axisEquivalent_same_or_empty)

lemma not_equivalent_reported_different:
  "\<not> kindsEquivalent e d w \<Longrightarrow> \<not> compareGeometryKinds e d w"
  using compareGeometryKinds_sound by blast

text \<open>
  The stored kinds never have a member. A new loader stores none, and every operation of
  the loader keeps the stored sets empty: \<open>setGeometryKinds\<close> stores the old set
  object or a new empty one and adds no member to it, the sets that \<open>setDecodedTile\<close>
  fills are new objects, and \<open>reset\<close> only empties.
\<close>

lemma keepsMembers_refl: "keepsMembers h h"
  by (simp add: keepsMembers_def)

lemma keepsMembers_trans: "keepsMembers h1 h2 \<Longrightarrow> keepsMembers h2 h3 \<Longrightarrow> keepsMembers h1 h3"
  by (auto simp add: keepsMembers_def)

lemma emptyStored_keeps: "emptyStored h s \<Longrightarrow> keepsMembers h h' \<Longrightarrow> emptyStored h' s"
  by (auto simp add: emptyStored_def keepsMembers_def split: option.splits)

lemma newGeometryKindSet_keeps:
  "keepsMembers h (snd (newGeometryKindSet xs h))" "fst (newGeometryKindSet xs h) = nextRef h"
  "nextRef (snd (newGeometryKindSet xs h)) = Suc (nextRef h)"
  by (simp_all add: newGeometryKindSet_def keepsMembers_def)

lemma compileGeometryKind_keeps:
  "keepsMembers h (snd (snd (compileGeometryKind t h)))"
  by (cases "kind t") (simp_all add: compileGeometryKind_def Let_def keepsMembers_def newGeometryKindSet_def)

lemma gatherKinds_keeps:
  "keepsExcept f h (snd (gatherKinds ts f h))"
proof (induction ts arbitrary: h)
  case Nil
  show ?case by (simp add: keepsExcept_def)
next
  case (Cons t ts)
  obtain g t' h1 where c: "compileGeometryKind t h = (g, t', h1)"
    by (cases "compileGeometryKind t h") auto
  have k1: "keepsMembers h h1" using compileGeometryKind_keeps [of h t] c by simp
  define h2 where "h2 = (case g of ObjectRef r \<Rightarrow> setAddAll f (members (objects h1 r)) h1
                          | KindValue k \<Rightarrow> setAdd f k h1)"
  have k2: "keepsExcept f h1 h2"
    unfolding h2_def by (cases g) (simp_all add: keepsExcept_def setAdd_def setAddAll_def)
  have k3: "keepsExcept f h2 (snd (gatherKinds ts f h2))" by (rule Cons.IH)
  have eq: "snd (gatherKinds (t # ts) f h) = snd (gatherKinds ts f h2)"
    by (simp add: c h2_def Let_def split: prod.splits)
  show ?case
    unfolding eq using k1 k2 k3 by (auto simp add: keepsExcept_def keepsMembers_def)
qed

lemma prepareAvailableGeometryKinds_keeps:
  "keepsMembers h (snd (snd (prepareAvailableGeometryKinds ts h)))"
proof -
  have a: "snd (snd (prepareAvailableGeometryKinds ts h))
             = snd (gatherKinds ts (nextRef h) (snd (newGeometryKindSet [] h)))"
    by (simp add: prepareAvailableGeometryKinds_def newGeometryKindSet_def split: prod.splits)
  have g: "keepsExcept (nextRef h) (snd (newGeometryKindSet [] h))
             (snd (gatherKinds ts (nextRef h) (snd (newGeometryKindSet [] h))))"
    by (rule gatherKinds_keeps)
  show ?thesis
    unfolding a using g newGeometryKindSet_keeps(1) [where h = h and xs = "[]"]
      newGeometryKindSet_keeps(3) [where h = h and xs = "[]"]
    by (auto simp add: keepsExcept_def keepsMembers_def)
qed

lemma setDecodedTile_stored:
  "storedKindsEmpty w \<Longrightarrow> storedKindsEmpty (setDecodedTile dt w)"
proof (cases dt)
  case None
  assume "storedKindsEmpty w"
  then show ?thesis using None by (simp add: setDecodedTile_def storedKindsEmpty_def)
next
  case (Some d)
  assume s: "storedKindsEmpty w"
  have h: "heap (setDecodedTile dt w) = snd (snd (prepareAvailableGeometryKinds (decodedTiles w d) (heap w)))"
    using Some by (simp add: setDecodedTile_def Let_def split: prod.splits)
  have l: "m_enabledKinds (loader (setDecodedTile dt w)) = m_enabledKinds (loader w)"
    "m_disabledKinds (loader (setDecodedTile dt w)) = m_disabledKinds (loader w)"
    by (simp_all add: setDecodedTile_def Let_def split: option.splits prod.splits)
  show ?thesis
    using s emptyStored_keeps [OF _ prepareAvailableGeometryKinds_keeps]
    by (simp add: storedKindsEmpty_def h l)
qed

lemma assignKinds_stored:
  assumes "emptyStored h stored"
  shows "emptyStored (snd (assignKinds stored kinds h)) (Some (fst (assignKinds stored kinds h)))"
    and "keepsMembers h (snd (assignKinds stored kinds h))"
  using assms
  by (auto simp add: assignKinds_def emptyStored_def keepsMembers_def objectAssign_def
        newGeometryKindSet_def split: option.splits)

lemma setGeometryKinds_stored:
  assumes "storedKindsEmpty w"
  shows "storedKindsEmpty (setGeometryKinds e d w)"
proof -
  define w1 where "w1 = (case e of None \<Rightarrow> w
     | Some a \<Rightarrow> w\<lparr>loader := (loader w)\<lparr>m_enabledKinds := Some (fst (assignKinds (m_enabledKinds (loader w)) a (heap w)))\<rparr>,
                   heap := snd (assignKinds (m_enabledKinds (loader w)) a (heap w))\<rparr>)"
  have s1: "storedKindsEmpty w1"
  proof (cases e)
    case None
    then show ?thesis using assms by (simp add: w1_def)
  next
    case (Some a)
    have en: "emptyStored (heap w) (m_enabledKinds (loader w))"
      and di: "emptyStored (heap w) (m_disabledKinds (loader w))"
      using assms by (simp_all add: storedKindsEmpty_def)
    show ?thesis
      using assignKinds_stored [OF en, of a] emptyStored_keeps [OF di]
      by (simp add: w1_def Some storedKindsEmpty_def)
  qed
  have eq: "\<And>d. setGeometryKinds e d w = (case d of None \<Rightarrow> w1
     | Some b \<Rightarrow> w1\<lparr>loader := (loader w1)\<lparr>m_disabledKinds := Some (fst (assignKinds (m_disabledKinds (loader w1)) b (heap w1)))\<rparr>,
                   heap := snd (assignKinds (m_disabledKinds (loader w1)) b (heap w1))\<rparr>)"
    by (simp add: setGeometryKinds_def w1_def Let_def split: option.splits prod.splits)
  show ?thesis
  proof (cases d)
    case None
    show ?thesis using s1 by (simp add: eq None)
  next
    case (Some b)
    have en: "emptyStored (heap w1) (m_enabledKinds (loader w1))"
      and di: "emptyStored (heap w1) (m_disabledKinds (loader w1))"
      using s1 by (simp_all add: storedKindsEmpty_def)
    show ?thesis
      using assignKinds_stored [OF di, of b] emptyStored_keeps [OF en]
      by (simp add: eq Some storedKindsEmpty_def)
  qed
qed

lemma optClear_emptyStored:
  "emptyStored h s \<Longrightarrow> emptyStored (optClear c h) s"
  by (auto simp add: emptyStored_def optClear_def setClear_def split: option.splits)

lemma reset_stored: "storedKindsEmpty w \<Longrightarrow> storedKindsEmpty (reset w)"
  by (simp add: storedKindsEmpty_def reset_def optClear_emptyStored)

lemma finish_stored: "storedKindsEmpty w \<Longrightarrow> storedKindsEmpty (finish w)"
  by (simp add: storedKindsEmpty_def finish_def emit_def Let_def)

lemma emit_stored: "storedKindsEmpty (emit es w) = storedKindsEmpty w"
  by (simp add: storedKindsEmpty_def emit_def)

lemma dispose_stored: "storedKindsEmpty w \<Longrightarrow> storedKindsEmpty (dispose w)"
  by (simp add: storedKindsEmpty_def dispose_def)

lemma discard_stored: "storedKindsEmpty w \<Longrightarrow> storedKindsEmpty (snd (discardNeedlessTile w))"
  by (simp add: discardNeedlessTile_def Let_def finish_stored emit_stored)

lemma prepareForRender_stored: "storedKindsEmpty w \<Longrightarrow> storedKindsEmpty (prepareForRender e d w)"
proof (cases "m_decodedTile (loader w)")
  case None
  assume "storedKindsEmpty w"
  then show ?thesis using None by (simp add: prepareForRender_def finish_stored)
next
  case (Some a)
  assume "storedKindsEmpty w"
  then show ?thesis using Some by (simp add: prepareForRender_def storedKindsEmpty_def)
qed

lemma update_unfold:
  "update e d w =
     (if m_isFinished (loader w) then w
      else if fst (discardNeedlessTile w) then snd (discardNeedlessTile w)
      else if tileLoaderIsFinished (tile w) = Some True \<and> decodedTile (tile w) = None
      then finish w
      else (let w2 = (if geometryCreationPending w \<and> \<not> compareGeometryKinds e d w
                      then reset w else w)
            in if \<not> geometryCreationPending w2 \<and> decodedTile (tile w2) \<noteq> None
               then prepareForRender e d
                      (setDecodedTile (decodedTile (tile w2))
                         (setGeometryKinds e d (processTechniques e d w2)))
               else w2))"
  using discardNeedlessTile_fields(4) [of w]
  by (cases "discardNeedlessTile w") (auto simp add: update_def)

lemma prepare_unfold:
  "prepare e d w =
     (case m_decodedTile (loader w) of
        None \<Rightarrow> finish w
      | Some dt \<Rightarrow>
          if fst (discardNeedlessTile w) then snd (discardNeedlessTile w)
          else (let w2 = emit [TileClear, InitDecodedTile dt e d, CreateAllGeometries dt] w;
                    w3 = (if statsEnabled w2 then emit (replicate 9 AddValue @ [AddMessage]) w2
                          else w2)
                in emit [RequestUpdate] (finish w3)))"
  using discardNeedlessTile_fields(4) [of w]
  by (cases "discardNeedlessTile w") (auto simp add: prepare_def split: option.splits)

lemma prepare_stored: "storedKindsEmpty w \<Longrightarrow> storedKindsEmpty (prepare e d w)"
  unfolding prepare_unfold
  by (simp add: finish_stored emit_stored discard_stored Let_def split: option.splits)

lemma update_stored:
  assumes s: "storedKindsEmpty w"
  shows "storedKindsEmpty (update e d w)"
proof -
  have cyc: "\<And>v. storedKindsEmpty v \<Longrightarrow> storedKindsEmpty
       (prepareForRender e d (setDecodedTile (decodedTile (tile v))
           (setGeometryKinds e d (processTechniques e d v))))"
    by (simp add: prepareForRender_stored setDecodedTile_stored setGeometryKinds_stored
          processTechniques_def emit_stored)
  show ?thesis
    unfolding update_unfold
    using s discard_stored [OF s] cyc [OF s] cyc [OF reset_stored [OF s]] reset_stored [OF s]
      finish_stored [OF s]
    by (simp add: Let_def)
qed

lemma newLoader_stored: "loader w = newLoader \<Longrightarrow> storedKindsEmpty w"
  by (simp add: storedKindsEmpty_def emptyStored_def newLoader_def)

lemma emptyStored_undefinedOrEmpty: "emptyStored h s \<Longrightarrow> undefinedOrEmpty h s"
  by (simp add: emptyStored_def undefinedOrEmpty_def sizeIsZero_def split: option.splits)

lemma compareGeometryKinds_eq_kindsEquivalent:
  assumes "storedKindsEmpty w"
  shows "compareGeometryKinds e d w = kindsEquivalent e d w"
proof -
  have se: "undefinedOrEmpty (heap w) (m_enabledKinds (loader w))"
    and sd: "undefinedOrEmpty (heap w) (m_disabledKinds (loader w))"
    using assms by (simp_all add: storedKindsEmpty_def emptyStored_undefinedOrEmpty)
  show ?thesis
  proof (cases "compareGeometryKinds e d w")
    case True
    then show ?thesis using compareGeometryKinds_sound by simp
  next
    case False
    have "\<not> kindsEquivalent e d w"
    proof
      assume k: "kindsEquivalent e d w"
      have a: "undefinedOrEmpty (heap w) e"
        using k se by (auto simp add: kindsEquivalent_def axisEquivalent_def split: if_splits)
      have b: "undefinedOrEmpty (heap w) d"
        using k sd by (auto simp add: kindsEquivalent_def axisEquivalent_def split: if_splits)
      have "compareGeometryKinds e d w"
        using a b se sd by (simp add: compareGeometryKinds_def Let_def)
      with False show False by simp
    qed
    with False show ?thesis by simp
  qed
qed

text \<open>
  Claim C1 is about an axis on which the stored set and the set of the call are distinct
  objects that are both non-empty. By the lemmas above no sequence of operations on a new
  loader stores a non-empty set, so that case does not occur in a run of the loader; on
  every state that does occur, \<open>compareGeometryKinds\<close> is the equivalence of the spec
  (\<open>compareGeometryKinds_eq_kindsEquivalent\<close>). The claim is therefore neither proved
  at an input of its own nor refuted at an input the loader can be in.
\<close>

section \<open>Storing the kinds of a call\<close>

text \<open>
  \<open>setGeometryKinds\<close> adds no member to any set: \<open>Object.assign\<close> leaves the
  members of its target alone, and a target made by \<open>new GeometryKindSet()\<close> is empty.
\<close>

lemma assignKinds_members:
  "members (objects (snd (assignKinds stored kinds h)) r) \<subseteq> members (objects h r)"
  by (simp add: assignKinds_def objectAssign_def newGeometryKindSet_def split: option.splits)

lemma setGeometryKinds_heap:
  "heap (setGeometryKinds e d w)
     = (let h1 = (case e of None \<Rightarrow> heap w
                  | Some a \<Rightarrow> snd (assignKinds (m_enabledKinds (loader w)) a (heap w)))
        in case d of None \<Rightarrow> h1
           | Some b \<Rightarrow> snd (assignKinds (m_disabledKinds (loader w)) b h1))"
  by (simp add: setGeometryKinds_def Let_def split: option.splits prod.splits)

lemma setGeometryKinds_adds_no_member:
  "members (objects (heap (setGeometryKinds e d w)) r) \<subseteq> members (objects (heap w) r)"
proof -
  define h1 where "h1 = (case e of None \<Rightarrow> heap w
                  | Some a \<Rightarrow> snd (assignKinds (m_enabledKinds (loader w)) a (heap w)))"
  have first: "members (objects h1 r) \<subseteq> members (objects (heap w) r)"
    unfolding h1_def by (cases e) (simp_all add: assignKinds_members)
  have second: "members (objects (heap (setGeometryKinds e d w)) r) \<subseteq> members (objects h1 r)"
    unfolding setGeometryKinds_heap h1_def [symmetric]
    by (cases d) (simp_all add: assignKinds_members)
  from second first show ?thesis by (rule order_trans)
qed

text \<open>
  Claim C2 says that the stored enabled (and disabled) kinds are, after each call, the
  union of the kinds supplied so far. The code at a fresh loader: after
  \<open>setGeometryKinds(a, undefined)\<close>, with \<open>a\<close> the set object 0 whose member is
  \<open>Line\<close>, the stored enabled kinds are a new set object without members, and after a
  further \<open>setGeometryKinds(b, undefined)\<close>, with \<open>b\<close> the set object 1, they are
  that same object, still without members.
\<close>

theorem setGeometryKinds_stores_empty_set:
  "m_enabledKinds (loader exampleWorld) = None
   \<and> members (objects (heap exampleWorld) 0) = {Line}
   \<and> m_enabledKinds (loader (setGeometryKinds (Some 0) None exampleWorld)) = Some 2
   \<and> members (objects (heap (setGeometryKinds (Some 0) None exampleWorld)) 2) = {}
   \<and> m_enabledKinds (loader (setGeometryKinds (Some 1) None
                                (setGeometryKinds (Some 0) None exampleWorld))) = Some 2
   \<and> members (objects (heap (setGeometryKinds (Some 1) None
                                (setGeometryKinds (Some 0) None exampleWorld))) 2) = {}"
  by (simp add: example_defs setGeometryKinds_def assignKinds_def objectAssign_def
        newGeometryKindSet_def)

section \<open>Two updates with the same kinds\<close>

text \<open>
  Whenever \<open>compareGeometryKinds\<close> does report the kinds of the call as the stored
  ones, \<open>update\<close> on a pending build changes nothing: no reset and no task.
\<close>

lemma update_pending_equivalent:
  assumes "geometryCreationPending w" "isVisible (tile w)" "\<not> disposed (tile w)"
    "decodedTile (tile w) \<noteq> None" "compareGeometryKinds e d w"
  shows "update e d w = w"
  using assms
  by (auto simp add: update_def discardNeedlessTile_def geometryCreationPending_def Let_def)

text \<open>
  Claim C3 says that, on a visible tile that is not disposed and has a decoded tile, a
  second \<open>update\<close> with kinds equivalent to those of the first, made before the queued
  task runs, adds no second task and does not reset the loader. The code at the fresh
  loader, both calls with the very same set object 0 (member \<open>Line\<close>) as enabled kinds
  and undefined disabled kinds: the first call adds one task and leaves a build pending;
  at the second call \<open>compareGeometryKinds\<close> reports a difference, the loader is reset
  (the set of available kinds computed by the first call is emptied) and a second task is
  added.
\<close>

theorem update_same_kinds_resubmits:
  "isVisible (tile exampleWorld) \<and> \<not> disposed (tile exampleWorld)
   \<and> decodedTile (tile exampleWorld) = Some 0
   \<and> taskQueue (update (Some 0) None exampleWorld)
        = [\<lparr>boundEnabledKinds = Some 0, boundDisabledKinds = None\<rparr>]
   \<and> geometryCreationPending (update (Some 0) None exampleWorld)
   \<and> tile (update (Some 0) None exampleWorld) = tile exampleWorld
   \<and> \<not> compareGeometryKinds (Some 0) None (update (Some 0) None exampleWorld)
   \<and> m_availableGeometryKinds (loader (update (Some 0) None exampleWorld)) = Some 3
   \<and> members (objects (heap (update (Some 0) None exampleWorld)) 3) = {Line}
   \<and> members (objects (heap (update (Some 0) None (update (Some 0) None exampleWorld))) 3) = {}
   \<and> taskQueue (update (Some 0) None (update (Some 0) None exampleWorld))
        = [\<lparr>boundEnabledKinds = Some 0, boundDisabledKinds = None\<rparr>,
           \<lparr>boundEnabledKinds = Some 0, boundDisabledKinds = None\<rparr>]"
  by (simp add: example_defs operation_defs)

end
